theory Spec2Isabelle
  imports Complex_Main
begin

section \<open>Cells of a data frame\<close>

subsection \<open>Floating-point values\<close>

text \<open>
  A float64 cell is a finite number, a negative zero, one of the two infinities, or NaN,
  which is the missing marker of pandas. \<open>Fin 0\<close> is the positive zero. Every arithmetic
  operation returns the exact result rounded to the nearest float64, ties to even, as
  IEEE 754 prescribes and numpy computes; a result too large for the format is an
  infinity, one too small is a zero with the sign of the exact result. Nothing raises:
  \<open>x / 0\<close> is an infinity for \<open>x \<noteq> 0\<close> and NaN for \<open>x = 0\<close>, and NaN is absorbing.
\<close>

datatype fl = Fin real | NZero | PInf | NInf | NaN

definition round_even :: "real \<Rightarrow> int" where
  "round_even r =
     (let f = \<lfloor>r\<rfloor>; d = r - of_int f
      in if d < 1 / 2 then f else if 1 / 2 < d then f + 1 else if even f then f else f + 1)"

text \<open>
  The spacing of the float64 values around \<open>x\<close> is \<open>2\<^sup>e\<close>, where \<open>e\<close> is 52 below the
  binary exponent of \<open>x\<close> and at least -1074 (the subnormal numbers).
\<close>

definition round64 :: "real \<Rightarrow> fl" where
  "round64 x =
     (let e = max (\<lfloor>log 2 \<bar>x\<bar>\<rfloor> - 52) (- 1074);
          y = of_int (round_even (x / 2 powr of_int e)) * 2 powr of_int e
      in if 2 ^ 1024 \<le> \<bar>y\<bar> then (if x < 0 then NInf else PInf)
         else if y = 0 then (if x < 0 then NZero else Fin 0)
         else Fin y)"

fun fl_val :: "fl \<Rightarrow> real" where
  "fl_val (Fin x) = x"
| "fl_val _ = 0"

fun sign_bit :: "fl \<Rightarrow> bool" where
  "sign_bit (Fin x) = (x < 0)"
| "sign_bit NZero = True"
| "sign_bit NInf = True"
| "sign_bit _ = False"

definition isna :: "fl \<Rightarrow> bool" where
  "isna x = (x = NaN)"

definition is_inf :: "fl \<Rightarrow> bool" where
  "is_inf x = (x = PInf \<or> x = NInf)"

definition is_zero :: "fl \<Rightarrow> bool" where
  "is_zero x = (x = Fin 0 \<or> x = NZero)"

definition zero_of :: "bool \<Rightarrow> fl" where
  "zero_of negative = (if negative then NZero else Fin 0)"

definition inf_of :: "bool \<Rightarrow> fl" where
  "inf_of negative = (if negative then NInf else PInf)"

fun fl_neg :: "fl \<Rightarrow> fl" where
  "fl_neg (Fin x) = (if x = 0 then NZero else Fin (- x))"
| "fl_neg NZero = Fin 0"
| "fl_neg PInf = NInf"
| "fl_neg NInf = PInf"
| "fl_neg NaN = NaN"

definition fl_add :: "fl \<Rightarrow> fl \<Rightarrow> fl" where
  "fl_add a b =
     (if isna a \<or> isna b then NaN
      else if is_inf a then (if is_inf b \<and> b \<noteq> a then NaN else a)
      else if is_inf b then b
      else let s = fl_val a + fl_val b
           in if s = 0 then zero_of (sign_bit a \<and> sign_bit b) else round64 s)"

definition fl_sub :: "fl \<Rightarrow> fl \<Rightarrow> fl" where
  "fl_sub a b = fl_add a (fl_neg b)"

definition fl_mul :: "fl \<Rightarrow> fl \<Rightarrow> fl" where
  "fl_mul a b =
     (if isna a \<or> isna b then NaN
      else if (is_inf a \<and> is_zero b) \<or> (is_zero a \<and> is_inf b) then NaN
      else let negative = (sign_bit a \<noteq> sign_bit b)
           in if is_inf a \<or> is_inf b then inf_of negative
              else if is_zero a \<or> is_zero b then zero_of negative
              else round64 (fl_val a * fl_val b))"

definition fl_div :: "fl \<Rightarrow> fl \<Rightarrow> fl" where
  "fl_div a b =
     (if isna a \<or> isna b then NaN
      else if (is_inf a \<and> is_inf b) \<or> (is_zero a \<and> is_zero b) then NaN
      else let negative = (sign_bit a \<noteq> sign_bit b)
           in if is_inf a \<or> is_zero b then inf_of negative
              else if is_inf b \<or> is_zero a then zero_of negative
              else round64 (fl_val a / fl_val b))"

definition fl_sqrt :: "fl \<Rightarrow> fl" where
  "fl_sqrt a =
     (if isna a then NaN
      else if is_zero a then a
      else if sign_bit a then NaN
      else if is_inf a then PInf
      else round64 (sqrt (fl_val a)))"

text \<open>Comparisons with NaN are false, and the two zeros are equal, as in numpy.\<close>

fun fl_lt :: "fl \<Rightarrow> fl \<Rightarrow> bool" where
  "fl_lt NaN _ = False"
| "fl_lt _ NaN = False"
| "fl_lt NInf NInf = False"
| "fl_lt NInf _ = True"
| "fl_lt _ NInf = False"
| "fl_lt PInf _ = False"
| "fl_lt _ PInf = True"
| "fl_lt a b = (fl_val a < fl_val b)"

definition fl_le :: "fl \<Rightarrow> fl \<Rightarrow> bool" where
  "fl_le a b = (\<not> isna a \<and> \<not> isna b \<and> \<not> fl_lt b a)"

text \<open>The cell values that are float64 numbers: rounding leaves them as they are.\<close>

fun float64 :: "fl \<Rightarrow> bool" where
  "float64 (Fin x) = (x = 0 \<or> round64 x = Fin x)"
| "float64 _ = True"

definition fl_sum :: "fl list \<Rightarrow> fl" where
  "fl_sum xs = foldl fl_add (Fin 0) xs"

subsection \<open>Raw cells and type conversion\<close>

text \<open>
  A raw cell of a numeric column holds a number (or text that denotes one), given here
  by the float64 it converts to, text that does not denote a number, or nothing.
  \<open>pd.to_numeric(..., errors='coerce')\<close> turns the last two into NaN and never raises.
\<close>

datatype raw = RNum fl | RBad string | RNull

fun to_numeric :: "raw \<Rightarrow> fl" where
  "to_numeric (RNum x) = x"
| "to_numeric (RBad s) = NaN"
| "to_numeric RNull = NaN"

text \<open>
  A raw cell of a date column holds an instant (nanoseconds since the epoch), text that
  is no date, or nothing. \<open>pd.to_datetime\<close> is called without \<open>errors='coerce'\<close>: it
  raises on the first cell it cannot parse or that lies outside the range of a 64-bit
  count of nanoseconds, and maps a null cell to NaT (\<open>None\<close>).
\<close>

datatype rawtime = TVal int | TBad string | TNull

datatype error =
    KeyError string
  | ValueError string
  | OutOfBoundsDatetime int
  | AttributeError string
  | OverflowError

definition in_bounds :: "int \<Rightarrow> bool" where
  "in_bounds t = (- (2 ^ 63) < t \<and> t < 2 ^ 63)"

fun to_datetime :: "rawtime list \<Rightarrow> error + int option list" where
  "to_datetime [] = Inr []"
| "to_datetime (TVal t # cs) =
     (if in_bounds t
      then (case to_datetime cs of Inl e \<Rightarrow> Inl e | Inr ts \<Rightarrow> Inr (Some t # ts))
      else Inl (OutOfBoundsDatetime t))"
| "to_datetime (TNull # cs) = (case to_datetime cs of Inl e \<Rightarrow> Inl e | Inr ts \<Rightarrow> Inr (None # ts))"
| "to_datetime (TBad s # cs) = Inl (ValueError s)"

text \<open>What \<open>pd.to_datetime\<close> accepts and what it returns, cell by cell.\<close>

fun readable :: "rawtime \<Rightarrow> bool" where
  "readable (TVal t) = in_bounds t"
| "readable (TBad s) = False"
| "readable TNull = True"

fun instant :: "rawtime \<Rightarrow> int option" where
  "instant (TVal t) = Some t"
| "instant _ = None"

section \<open>Frames\<close>

text \<open>
  A data frame is its column labels, which are distinct, and its rows. A row is a record with a field for
  every column the operation knows; the field of a column that the frame lacks carries
  no meaning, and reading that column raises \<open>KeyError\<close>. \<open>text_columns\<close> lists the
  columns that hold text or nothing (dtype \<open>object\<close>), on which the \<open>.str\<close> accessor
  works; on any other column it raises \<open>AttributeError\<close>. \<open>df.empty\<close> holds when the
  frame has no rows or no columns.
\<close>

record 'r frame =
  columns :: "string set"
  text_columns :: "string set"
  rows :: "'r list"

definition frame_empty :: "'r frame \<Rightarrow> bool" where
  "frame_empty df = (columns df = {} \<or> rows df = [])"

definition missing_column :: "string list \<Rightarrow> 'r frame \<Rightarrow> string option" where
  "missing_column cs df = find (\<lambda>c. c \<notin> columns df) cs"

text \<open>
  What an operation returns: the frame it was given, untouched, or the transformed rows.
\<close>

datatype ('r, 'o) outcome = Unchanged "'r frame" | Transformed "'o list"

fun out_rows :: "('r, 'o) outcome \<Rightarrow> 'o list" where
  "out_rows (Unchanged df) = []"
| "out_rows (Transformed rs) = rs"

text \<open>The values of a column of the result, row by row.\<close>

definition column :: "('o \<Rightarrow> 'v) \<Rightarrow> error + ('r, 'o) outcome \<Rightarrow> error + 'v list" where
  "column f res = map_sum id (\<lambda>out. map f (out_rows out)) res"

text \<open>
  \<open>df.drop_duplicates(subset=...)\<close> is called with the default \<open>keep='first'\<close>: a row
  stays exactly when no earlier row has its key. Null keys compare equal.
\<close>

fun drop_dups :: "('a \<Rightarrow> 'k) \<Rightarrow> 'k list \<Rightarrow> 'a list \<Rightarrow> 'a list" where
  "drop_dups key seen [] = []"
| "drop_dups key seen (r # rs) =
     (if key r \<in> set seen then drop_dups key seen rs
      else r # drop_dups key (key r # seen) rs)"

definition drop_duplicates :: "('a \<Rightarrow> 'k) \<Rightarrow> 'a list \<Rightarrow> 'a list" where
  "drop_duplicates key df = drop_dups key [] df"

text \<open>
  \<open>df.groupby(k)[c].transform(f)\<close>: \<open>f\<close> runs on the values of each group, in frame
  order, and every row receives the entry of its group's result at its rank in the group.
\<close>

definition group_values :: "'k list \<Rightarrow> 'v list \<Rightarrow> 'k \<Rightarrow> 'v list" where
  "group_values keys vals k = map snd (filter (\<lambda>p. fst p = k) (zip keys vals))"

definition group_rank :: "'k list \<Rightarrow> nat \<Rightarrow> nat" where
  "group_rank keys i = length (filter (\<lambda>k. k = keys ! i) (take i keys))"

definition groupby_transform :: "'k list \<Rightarrow> 'v list \<Rightarrow> ('v list \<Rightarrow> 'b list) \<Rightarrow> 'b list" where
  "groupby_transform keys vals f =
     map (\<lambda>i. f (group_values keys vals (keys ! i)) ! group_rank keys i) [0..<length keys]"

text \<open>
  \<open>pct_change\<close> of a series: entry \<open>k\<close> is \<open>x\<^sub>k / x\<^sub>k\<^sub>-\<^sub>1 - 1\<close>, a division and then a
  subtraction, and the first entry is NaN. (The forward fill that older versions of
  pandas apply first changes nothing on the series it gets here, which has no NaN.)
\<close>

definition pct_change :: "fl list \<Rightarrow> fl list" where
  "pct_change xs =
     map (\<lambda>k. if k = 0 then NaN else fl_sub (fl_div (xs ! k) (xs ! (k - 1))) (Fin 1))
       [0..<length xs]"

text \<open>
  \<open>rolling(window=w, min_periods=m)\<close>: the window of entry \<open>k\<close> is the last \<open>w\<close>
  entries up to \<open>k\<close>, fewer at the start of the series; its observations are the entries
  that are not NaN. The mean needs \<open>m\<close> observations; the standard deviation (with
  \<open>ddof = 1\<close>) needs \<open>m\<close> observations and more than one. The aggregates are taken here
  as the sum over the observations in their order; pandas updates running sums from
  window to window, which can differ from these in the last digits.
\<close>

definition window_obs :: "nat \<Rightarrow> nat \<Rightarrow> fl list \<Rightarrow> fl list" where
  "window_obs w k xs = filter (\<lambda>v. \<not> isna v) (drop (Suc k - w) (take (Suc k) xs))"

definition fl_mean :: "fl list \<Rightarrow> fl" where
  "fl_mean obs = fl_div (fl_sum obs) (Fin (real (length obs)))"

definition fl_std :: "fl list \<Rightarrow> fl" where
  "fl_std obs =
     (let m = fl_mean obs;
          ssq = fl_sum (map (\<lambda>v. fl_mul (fl_sub v m) (fl_sub v m)) obs)
      in fl_sqrt (fl_div ssq (Fin (real (length obs - 1)))))"

definition rolling_mean :: "nat \<Rightarrow> nat \<Rightarrow> fl list \<Rightarrow> fl list" where
  "rolling_mean w m xs =
     map (\<lambda>k. let obs = window_obs w k xs in if length obs < m then NaN else fl_mean obs)
       [0..<length xs]"

definition rolling_std :: "nat \<Rightarrow> nat \<Rightarrow> fl list \<Rightarrow> fl list" where
  "rolling_std w m xs =
     map (\<lambda>k. let obs = window_obs w k xs
              in if length obs < m \<or> length obs \<le> 1 then NaN else fl_std obs)
       [0..<length xs]"

section \<open>Stock transform\<close>

record stock_raw =
  date :: rawtime
  symbol :: string
  "open" :: raw
  high :: raw
  low :: raw
  close :: raw
  volume :: raw
  extraction_timestamp :: int

record stock_bar =
  date :: "int option"
  symbol :: string
  "open" :: fl
  high :: fl
  low :: fl
  close :: fl
  volume :: fl
  extraction_timestamp :: int

record stock_row = stock_bar +
  daily_return :: fl
  price_range :: fl
  price_change :: fl
  price_change_pct :: fl
  ma_7 :: fl
  ma_30 :: fl
  volatility_30d :: fl

record stock_out = stock_row +
  transformed_at :: int

text \<open>Step 1: data type conversions, given the dates that \<open>pd.to_datetime\<close> returned.\<close>

definition stock_convert :: "stock_raw list \<Rightarrow> int option list \<Rightarrow> stock_bar list" where
  "stock_convert df ds =
     map (\<lambda>(r, d).
          \<lparr> date = d, symbol = stock_raw.symbol r,
            open = to_numeric (stock_raw.open r), high = to_numeric (stock_raw.high r),
            low = to_numeric (stock_raw.low r), close = to_numeric (stock_raw.close r),
            volume = to_numeric (stock_raw.volume r),
            extraction_timestamp = stock_raw.extraction_timestamp r \<rparr>) (zip df ds)"

text \<open>Step 2: missing values. \<open>dropna(subset=['close'])\<close>, then \<open>volume.fillna(0)\<close>.\<close>

definition fillna :: "fl \<Rightarrow> fl \<Rightarrow> fl" where
  "fillna v x = (if isna x then v else x)"

definition stock_missing :: "stock_bar list \<Rightarrow> stock_bar list" where
  "stock_missing df =
     map (\<lambda>r. r\<lparr>volume := fillna (Fin 0) (volume r)\<rparr>) (filter (\<lambda>r. \<not> isna (close r)) df)"

text \<open>The frame after steps 1 and 2, when every date could be read.\<close>

definition stock_normalized :: "stock_raw frame \<Rightarrow> stock_bar list" where
  "stock_normalized df =
     stock_missing (stock_convert (rows df) (map (instant \<circ> stock_raw.date) (rows df)))"

text \<open>The two helpers of the class, on the columns they read.\<close>

definition add_moving_averages :: "nat \<Rightarrow> string list \<Rightarrow> fl list \<Rightarrow> fl list" where
  "add_moving_averages window symbols closes =
     groupby_transform symbols closes (rolling_mean window 1)"

definition add_volatility :: "string list \<Rightarrow> fl list \<Rightarrow> fl list" where
  "add_volatility symbols daily_returns =
     groupby_transform symbols daily_returns (rolling_std 30 1)"

text \<open>
  Steps 3 and 4: feature engineering and technical indicators, computed on the whole
  frame as it is after step 2, column by column, in the order of the source.
\<close>

definition stock_features :: "stock_bar list \<Rightarrow> stock_row list" where
  "stock_features df =
     (let symbols = map symbol df;
          closes = map close df;
          dr = groupby_transform symbols closes pct_change;
          m7 = add_moving_averages 7 symbols closes;
          m30 = add_moving_averages 30 symbols closes;
          vol = add_volatility symbols dr
      in map (\<lambda>i. let r = df ! i; pc = fl_sub (close r) (open r)
                  in stock_bar.extend r
                       (stock_row.fields (dr ! i) (fl_sub (high r) (low r)) pc
                          (fl_mul (fl_div pc (open r)) (Fin 100)) (m7 ! i) (m30 ! i) (vol ! i)))
           [0..<length df])"

text \<open>Step 5: data validation. Step 6: duplicates. Step 7: metadata.\<close>

definition stock_validate :: "stock_row list \<Rightarrow> stock_row list" where
  "stock_validate df =
     filter (\<lambda>r. fl_le (Fin 0) (volume r)) (filter (\<lambda>r. fl_lt (Fin 0) (close r)) df)"

definition stock_key :: "'a stock_bar_scheme \<Rightarrow> string \<times> int option" where
  "stock_key r = (symbol r, date r)"

definition stock_tag :: "int \<Rightarrow> stock_row \<Rightarrow> stock_out" where
  "stock_tag now r = stock_row.extend r (stock_out.fields now)"

definition stock_gate :: "stock_bar list \<Rightarrow> stock_row list" where
  "stock_gate df = drop_duplicates stock_key (stock_validate (stock_features (stock_missing df)))"

text \<open>
  The whole operation. \<open>now\<close> is what \<open>datetime.now()\<close> returns at step 7. An empty
  frame is returned as it is. The columns are looked up in the order of the source:
  \<open>date\<close> at step 1, the five numeric columns in the loop of step 1, and \<open>symbol\<close> at
  the first \<open>groupby\<close> of step 3.
\<close>

definition transform_stock_data ::
  "int \<Rightarrow> stock_raw frame \<Rightarrow> error + (stock_raw, stock_out) outcome" where
  "transform_stock_data now df =
     (if frame_empty df then Inr (Unchanged df)
      else if ''date'' \<notin> columns df then Inl (KeyError ''date'')
      else case to_datetime (map stock_raw.date (rows df)) of
             Inl e \<Rightarrow> Inl e
           | Inr ds \<Rightarrow>
               (case missing_column [''open'', ''high'', ''low'', ''close'', ''volume'', ''symbol''] df of
                  Some c \<Rightarrow> Inl (KeyError c)
                | None \<Rightarrow>
                    Inr (Transformed (map (stock_tag now) (stock_gate (stock_convert (rows df) ds))))))"

section \<open>Crypto transform\<close>

text \<open>
  \<open>pd.cut(x, bins, labels)\<close> with the defaults \<open>right=True\<close> and
  \<open>include_lowest=False\<close>: the index of a value is found by a left-sided
  \<open>searchsorted\<close> in the bin edges, so that every bin is open on the left and closed on
  the right; a value at or below the first edge, beyond the last edge, or NaN gets no
  label.
\<close>

definition searchsorted_left :: "fl list \<Rightarrow> fl \<Rightarrow> nat" where
  "searchsorted_left bins x = length (takeWhile (\<lambda>b. fl_lt b x) bins)"

definition cut :: "fl list \<Rightarrow> string list \<Rightarrow> fl \<Rightarrow> string option" where
  "cut bins labels x =
     (let ids = searchsorted_left bins x
      in if isna x \<or> ids = length bins \<or> ids = 0 then None else Some (labels ! (ids - 1)))"

definition price_bins :: "fl list" where
  "price_bins = [Fin 0, Fin 100, Fin 1000, Fin 10000, PInf]"

definition price_labels :: "string list" where
  "price_labels = [''low'', ''medium'', ''high'', ''very_high'']"

record crypto_raw =
  timestamp :: rawtime
  crypto_id :: string
  price_usd :: raw
  market_cap :: raw
  volume_24h :: raw
  change_24h :: raw

record crypto_tick =
  timestamp :: "int option"
  crypto_id :: string
  price_usd :: fl
  market_cap :: fl
  volume_24h :: raw
  change_24h :: raw

record crypto_out = crypto_tick +
  price_category :: "string option"
  transformed_at :: int

text \<open>
  Step 1 converts the timestamp, \<open>price_usd\<close> and \<open>market_cap\<close>; the other two
  columns are not touched by the operation.
\<close>

definition crypto_convert :: "crypto_raw list \<Rightarrow> int option list \<Rightarrow> crypto_tick list" where
  "crypto_convert df ts =
     map (\<lambda>(r, t).
          \<lparr> timestamp = t, crypto_id = crypto_raw.crypto_id r,
            price_usd = to_numeric (crypto_raw.price_usd r),
            market_cap = to_numeric (crypto_raw.market_cap r),
            volume_24h = crypto_raw.volume_24h r,
            change_24h = crypto_raw.change_24h r \<rparr>) (zip df ts)"

definition crypto_missing :: "crypto_tick list \<Rightarrow> crypto_tick list" where
  "crypto_missing df = filter (\<lambda>r. \<not> isna (price_usd r)) df"

text \<open>The frame after steps 1 and 2, when every timestamp could be read.\<close>

definition crypto_normalized :: "crypto_raw frame \<Rightarrow> crypto_tick list" where
  "crypto_normalized df =
     crypto_missing (crypto_convert (rows df) (map (instant \<circ> crypto_raw.timestamp) (rows df)))"

definition crypto_tag :: "int \<Rightarrow> crypto_tick \<Rightarrow> crypto_out" where
  "crypto_tag now r =
     crypto_tick.extend r (crypto_out.fields (cut price_bins price_labels (price_usd r)) now)"

definition transform_crypto_data ::
  "int \<Rightarrow> crypto_raw frame \<Rightarrow> error + (crypto_raw, crypto_out) outcome" where
  "transform_crypto_data now df =
     (if frame_empty df then Inr (Unchanged df)
      else if ''timestamp'' \<notin> columns df then Inl (KeyError ''timestamp'')
      else case to_datetime (map crypto_raw.timestamp (rows df)) of
             Inl e \<Rightarrow> Inl e
           | Inr ts \<Rightarrow>
               (case missing_column [''price_usd'', ''market_cap''] df of
                  Some c \<Rightarrow> Inl (KeyError c)
                | None \<Rightarrow>
                    Inr (Transformed
                      (map (crypto_tag now) (crypto_missing (crypto_convert (rows df) ts))))))"

section \<open>News transform\<close>

text \<open>
  Titles are strings of one-byte characters (Latin-1), on which \<open>str.strip\<close> removes
  the white space of Python and \<open>str.lower\<close> maps the capital letters to the small
  ones. A title cell that is null, or holds something that is no text, is \<open>None\<close>:
  the string methods return a missing value for it, and \<open>str.contains(..., na=False)\<close>
  answers \<open>False\<close>. The keywords contain letters only, so the regular-expression
  search of \<open>str.contains\<close> is a substring search.
\<close>

definition is_space :: "char \<Rightarrow> bool" where
  "is_space c =
     (let n = (of_char c :: nat)
      in (9 \<le> n \<and> n \<le> 13) \<or> (28 \<le> n \<and> n \<le> 32) \<or> n = 133 \<or> n = 160)"

definition strip :: "string \<Rightarrow> string" where
  "strip s = rev (dropWhile is_space (rev (dropWhile is_space s)))"

definition lower_char :: "char \<Rightarrow> char" where
  "lower_char c =
     (let n = (of_char c :: nat)
      in if (65 \<le> n \<and> n \<le> 90) \<or> (192 \<le> n \<and> n \<le> 222 \<and> n \<noteq> 215)
         then char_of (n + 32) else c)"

definition lower :: "string \<Rightarrow> string" where
  "lower s = map lower_char s"

fun str_contains :: "string \<Rightarrow> string \<Rightarrow> bool" where
  "str_contains k [] = (k = [])"
| "str_contains k (c # cs) = (take (length k) (c # cs) = k \<or> str_contains k cs)"

definition news_keywords :: "string list" where
  "news_keywords = [''earnings'', ''merger'', ''acquisition'', ''revenue'', ''profit'',
               ''loss'', ''growth'', ''decline'', ''bullish'', ''bearish'']"

record news_raw =
  symbol :: string
  title :: "string option"
  url :: string
  source :: string
  scraped_at :: int

record news_row = news_raw +
  title_length :: "nat option"
  flags :: "(string \<times> bool) list"

record news_out = news_row +
  transformed_at :: int

definition has_keyword :: "string \<Rightarrow> string option \<Rightarrow> bool" where
  "has_keyword keyword t = (case t of None \<Rightarrow> False | Some s \<Rightarrow> str_contains keyword (lower s))"

text \<open>
  Steps 1 and 2. The columns \<open>has_<keyword>\<close>, one for each keyword of the loop, are
  kept as the association list \<open>flags\<close> from column name to value.
\<close>

definition news_classify :: "news_raw \<Rightarrow> news_row" where
  "news_classify r =
     (let t = map_option strip (title r)
      in news_raw.extend (r\<lparr>title := t\<rparr>)
           (news_row.fields (map_option length t)
              (map (\<lambda>keyword. (''has_'' @ keyword, has_keyword keyword t)) news_keywords)))"

definition has :: "string \<Rightarrow> 'a news_row_scheme \<Rightarrow> bool option" where
  "has keyword r = map_of (flags r) (''has_'' @ keyword)"

definition news_key :: "'a news_raw_scheme \<Rightarrow> string option \<times> string" where
  "news_key r = (title r, symbol r)"

definition news_tag :: "int \<Rightarrow> news_row \<Rightarrow> news_out" where
  "news_tag now r = news_row.extend r (news_out.fields now)"

text \<open>
  The whole operation. \<open>title\<close> is looked up at step 1, where the \<open>.str\<close> accessor
  needs a column of text; \<open>symbol\<close> is looked up by \<open>drop_duplicates\<close> at step 3.
\<close>

definition transform_news_data ::
  "int \<Rightarrow> news_raw frame \<Rightarrow> error + (news_raw, news_out) outcome" where
  "transform_news_data now df =
     (if frame_empty df then Inr (Unchanged df)
      else if ''title'' \<notin> columns df then Inl (KeyError ''title'')
      else if ''title'' \<notin> text_columns df then Inl (AttributeError ''title'')
      else if ''symbol'' \<notin> columns df then Inl (KeyError ''symbol'')
      else Inr (Transformed
             (map (news_tag now) (drop_duplicates news_key (map news_classify (rows df))))))"

section \<open>Portfolio transform\<close>

record portfolio_raw =
  user_id :: int
  symbol :: string
  quantity :: raw
  purchase_price :: raw
  purchase_date :: rawtime
  asset_type :: string
  created_at :: int

record portfolio_holding =
  user_id :: int
  symbol :: string
  quantity :: fl
  purchase_price :: fl
  purchase_date :: "int option"
  asset_type :: string
  created_at :: int

record portfolio_out = portfolio_holding +
  cost_basis :: fl
  holding_days :: "int option"
  transformed_at :: int

definition portfolio_convert :: "portfolio_raw list \<Rightarrow> int option list \<Rightarrow> portfolio_holding list" where
  "portfolio_convert df ds =
     map (\<lambda>(r, d).
          \<lparr> user_id = portfolio_raw.user_id r, symbol = portfolio_raw.symbol r,
            quantity = to_numeric (portfolio_raw.quantity r),
            purchase_price = to_numeric (portfolio_raw.purchase_price r),
            purchase_date = d, asset_type = portfolio_raw.asset_type r,
            created_at = portfolio_raw.created_at r \<rparr>) (zip df ds)"

text \<open>
  Instants are counted in nanoseconds, in 64 bits. \<open>datetime.now() - purchase_date\<close>
  raises when \<open>datetime.now()\<close> or a difference does not fit. \<open>.dt.days\<close> is the
  days component of a timedelta, which is the floor of the duration in days; for NaT it
  is missing.
\<close>

definition ns_per_day :: int where
  "ns_per_day = 86400000000000"

definition timedelta_days :: "int \<Rightarrow> int" where
  "timedelta_days delta = delta div ns_per_day"

text \<open>
  \<open>now\<^sub>1\<close> is what \<open>datetime.now()\<close> returns when \<open>holding_days\<close> is computed, and
  \<open>now\<^sub>2\<close> what it returns for \<open>transformed_at\<close>.
\<close>

definition fits :: "int \<Rightarrow> int option \<Rightarrow> bool" where
  "fits now d = (case d of None \<Rightarrow> True | Some t \<Rightarrow> in_bounds (now - t))"

definition elapsed :: "int \<Rightarrow> int option list \<Rightarrow> error + int option list" where
  "elapsed now ds =
     (if \<not> in_bounds now then Inl (OutOfBoundsDatetime now)
      else if list_all (fits now) ds
           then Inr (map (map_option (\<lambda>t. now - t)) ds)
           else Inl OverflowError)"

text \<open>Steps 2 and 3: the metrics and the metadata.\<close>

definition portfolio_metrics ::
  "int \<Rightarrow> int \<Rightarrow> portfolio_holding list \<Rightarrow> error + portfolio_out list" where
  "portfolio_metrics now1 now2 df =
     (case elapsed now1 (map purchase_date df) of
        Inl e \<Rightarrow> Inl e
      | Inr deltas \<Rightarrow>
          Inr (map (\<lambda>(r, delta).
                 portfolio_holding.extend r
                   (portfolio_out.fields (fl_mul (quantity r) (purchase_price r))
                      (map_option timedelta_days delta) now2))
               (zip df deltas)))"

definition transform_portfolio_data ::
  "int \<Rightarrow> int \<Rightarrow> portfolio_raw frame \<Rightarrow> error + (portfolio_raw, portfolio_out) outcome" where
  "transform_portfolio_data now1 now2 df =
     (if frame_empty df then Inr (Unchanged df)
      else if ''purchase_date'' \<notin> columns df then Inl (KeyError ''purchase_date'')
      else case to_datetime (map portfolio_raw.purchase_date (rows df)) of
             Inl e \<Rightarrow> Inl e
           | Inr ds \<Rightarrow>
               (case missing_column [''quantity'', ''purchase_price''] df of
                  Some c \<Rightarrow> Inl (KeyError c)
                | None \<Rightarrow>
                    map_sum id Transformed
                      (portfolio_metrics now1 now2 (portfolio_convert (rows df) ds))))"

text \<open>
  The reading of the specification, for comparison: whole days elapsed, the fraction cut
  off (rounding towards zero).
\<close>

definition truncated_days :: "int \<Rightarrow> int" where
  "truncated_days delta = sgn delta * (\<bar>delta\<bar> div ns_per_day)"

section \<open>Example inputs\<close>


definition crypto_table :: "crypto_raw list \<Rightarrow> crypto_raw frame" where
  "crypto_table rs =
     \<lparr> columns = {''timestamp'', ''crypto_id'', ''price_usd'', ''market_cap'', ''volume_24h'',
                   ''change_24h''},
       text_columns = {''crypto_id''}, rows = rs \<rparr>"


definition portfolio_table :: "portfolio_raw list \<Rightarrow> portfolio_raw frame" where
  "portfolio_table rs =
     \<lparr> columns = {''user_id'', ''symbol'', ''quantity'', ''purchase_price'', ''purchase_date'',
                   ''asset_type'', ''created_at'', ''extraction_timestamp''},
       text_columns = {''symbol'', ''asset_type''}, rows = rs \<rparr>"


definition crypto_at :: "raw \<Rightarrow> raw \<Rightarrow> crypto_raw" where
  "crypto_at p v =
     \<lparr> crypto_raw.timestamp = TVal 0, crypto_raw.crypto_id = ''bitcoin'',
       crypto_raw.price_usd = p, crypto_raw.market_cap = RNum (Fin 1),
       crypto_raw.volume_24h = v, crypto_raw.change_24h = RNum (Fin 0) \<rparr>"


definition holding_at :: "raw \<Rightarrow> raw \<Rightarrow> rawtime \<Rightarrow> portfolio_raw" where
  "holding_at q p d =
     \<lparr> portfolio_raw.user_id = 1, portfolio_raw.symbol = ''AAPL'', portfolio_raw.quantity = q,
       portfolio_raw.purchase_price = p, portfolio_raw.purchase_date = d,
       portfolio_raw.asset_type = ''stock'', portfolio_raw.created_at = 0 \<rparr>"


section \<open>Basic facts\<close>

subsection \<open>Rounding\<close>

lemma round_even_int [simp]: "round_even (of_int n) = n"
  by (simp add: round_even_def)

text \<open>A number with at most 53 significant bits, within the exponent range, is a float64.\<close>

lemma round64_exact:
  assumes x: "x = of_int m * 2 powr of_int k" and m: "m \<noteq> 0" "\<bar>m\<bar> < 2 ^ 53"
    and k: "- 1074 \<le> k" and b: "\<bar>x\<bar> < 2 ^ 1024"
  shows "round64 x = Fin x"
proof -
  define e where "e = max (\<lfloor>log 2 \<bar>x\<bar>\<rfloor> - 52) (- 1074)"
  have pos: "0 < \<bar>x\<bar>" using x m by simp
  have absx: "\<bar>x\<bar> = of_int \<bar>m\<bar> * 2 powr of_int k"
    by (simp add: x abs_mult)
  have "of_int \<bar>m\<bar> < (2 :: real) ^ 53"
    using m(2) by (metis of_int_less_iff of_int_numeral of_int_power)
  then have "\<bar>x\<bar> < 2 ^ 53 * 2 powr of_int k"
    unfolding absx by (simp add: mult_strict_right_mono)
  also have "\<dots> = 2 powr (53 + of_int k)"
    by (simp add: powr_add powr_realpow [symmetric])
  finally have "log 2 \<bar>x\<bar> < 53 + of_int k"
    using pos by (simp add: log_less_iff)
  then have "\<lfloor>log 2 \<bar>x\<bar>\<rfloor> < 53 + k"
    by (simp add: floor_less_iff)
  then have ek: "e \<le> k"
    using k by (simp add: e_def)
  define n where "n = m * 2 ^ nat (k - e)"
  have "(2 :: real) powr of_int k = 2 powr of_int (k - e) * 2 powr of_int e"
    by (simp add: powr_add [symmetric])
  also have "(2 :: real) powr of_int (k - e) = 2 ^ nat (k - e)"
    using ek by (simp add: powr_realpow [symmetric])
  finally have split: "2 powr of_int k = (2 :: real) ^ nat (k - e) * 2 powr of_int e" .
  have q: "x / 2 powr of_int e = of_int n"
    by (simp add: x split n_def)
  have y: "of_int (round_even (x / 2 powr of_int e)) * 2 powr of_int e = x"
    unfolding q round_even_int by (simp add: n_def x split)
  show ?thesis
    using b pos by (simp add: round64_def e_def [symmetric] Let_def y)
qed

lemma round64_int:
  assumes "n \<noteq> 0" "\<bar>n\<bar> < 2 ^ 53"
  shows "round64 (of_int n) = Fin (of_int n)"
proof -
  have "\<bar>of_int n :: real\<bar> < 2 ^ 53"
    using assms(2) by (metis of_int_abs of_int_less_iff of_int_numeral of_int_power)
  also have "(2 :: real) ^ 53 < 2 ^ 1024" by simp
  finally have "\<bar>of_int n :: real\<bar> < 2 ^ 1024" .
  then show ?thesis
    using round64_exact [of "of_int n" n 0] assms by simp
qed

lemma round64_dyadic:
  assumes "n \<noteq> 0" "\<bar>n\<bar> < 2 ^ 53" "j \<le> 1074"
  shows "round64 (of_int n / 2 ^ j) = Fin (of_int n / 2 ^ j)"
proof -
  have a: "\<bar>of_int n :: real\<bar> < 2 ^ 53"
    using assms(2) by (metis of_int_abs of_int_less_iff of_int_numeral of_int_power)
  have "\<bar>of_int n / 2 ^ j :: real\<bar> \<le> \<bar>of_int n\<bar>"
    by (simp add: field_simps abs_mult mult_le_cancel_left1)
  also have "\<dots> < 2 ^ 1024" using a by simp
  finally have b: "\<bar>of_int n / 2 ^ j :: real\<bar> < 2 ^ 1024" .
  have "(of_int n :: real) / 2 ^ j = of_int n * 2 powr of_int (- int j)"
    by (simp add: powr_minus powr_realpow field_simps)
  then show ?thesis
    using round64_exact [of "of_int n / 2 ^ j" n "- int j"] assms b by simp
qed

subsection \<open>Dates\<close>

lemma to_datetime_Inr: "to_datetime cs = Inr ts \<Longrightarrow> ts = map instant cs \<and> list_all readable cs"
  by (induction cs arbitrary: ts rule: to_datetime.induct) (auto split: sum.splits if_splits)

lemma to_datetime_readable: "list_all readable cs \<Longrightarrow> to_datetime cs = Inr (map instant cs)"
  by (induction cs rule: to_datetime.induct) auto


subsection \<open>Columns\<close>

lemma missing_column_None: "missing_column cs df = None \<longleftrightarrow> set cs \<subseteq> columns df"
  by (auto simp: missing_column_def find_None_iff)


section \<open>Structural failures\<close>











section \<open>Price categories\<close>

lemma cut_price_Fin:
  "cut price_bins price_labels (Fin x) =
     (if x \<le> 0 then None else if x \<le> 100 then Some ''low''
      else if x \<le> 1000 then Some ''medium''
      else if x \<le> 10000 then Some ''high'' else Some ''very_high'')"
  by (simp add: cut_def price_bins_def price_labels_def searchsorted_left_def isna_def)

lemma cut_price_special:
  "cut price_bins price_labels PInf = Some ''very_high''"
  "cut price_bins price_labels NInf = None"
  "cut price_bins price_labels NaN = None"
  "cut price_bins price_labels NZero = None"
  by (simp_all add: cut_def price_bins_def price_labels_def searchsorted_left_def isna_def)

lemma crypto_out_rows:
  assumes "transform_crypto_data now df = Inr (Transformed out)" "r \<in> set out"
  shows "price_usd r \<noteq> NaN \<and> price_category r = cut price_bins price_labels (price_usd r)"
  using assms
  by (auto simp: transform_crypto_data_def crypto_missing_def crypto_tag_def isna_def
      crypto_tick.defs crypto_out.defs split: if_splits sum.splits option.splits)

lemmas crypto_eval = transform_crypto_data_def frame_empty_def crypto_table_def
  missing_column_def in_bounds_def crypto_convert_def crypto_missing_def crypto_at_def isna_def

text \<open>
  C3 (as stated): the buckets of \<open>price_category\<close> are closed on the left and open on the
  right, so that 100.0 is "medium", 99.99 is "low" and 10000.0 is "very_high". The code
  puts 100.0 into "low" and 10000.0 into "high".
\<close>

theorem price_category_boundaries:
  "column price_category
     (transform_crypto_data 0
        (crypto_table
           [crypto_at (RNum (Fin 100)) RNull, crypto_at (RNum (Fin (9999 / 100))) RNull,
            crypto_at (RNum (Fin 10000)) RNull]))
   = Inr [Some ''low'', Some ''low'', Some ''high'']"
  by (simp add: column_def crypto_eval crypto_tag_def cut_price_Fin
      crypto_tick.defs crypto_out.defs)

text \<open>
  C3 (amended): the buckets are open on the left and closed on the right: low on
  (0, 100], medium on (100, 1000], high on (1000, 10000], very_high above 10000
  (infinity included); a price at or below 0 gets no category (a missing value).
\<close>

theorem price_category_buckets:
  assumes "transform_crypto_data now df = Inr (Transformed out)" and "r \<in> set out"
  shows "price_category r =
     (case price_usd r of
        Fin x \<Rightarrow> (if x \<le> 0 then None else if x \<le> 100 then Some ''low''
                  else if x \<le> 1000 then Some ''medium''
                  else if x \<le> 10000 then Some ''high'' else Some ''very_high'')
      | PInf \<Rightarrow> Some ''very_high''
      | _ \<Rightarrow> None)"
  using crypto_out_rows [OF assms]
  by (cases "price_usd r") (simp_all add: cut_price_Fin cut_price_special)

theorem price_category_buckets_witness:
  "column price_usd (transform_crypto_data 0 (crypto_table [crypto_at (RNum (Fin 500)) RNull]))
     = Inr [Fin 500] \<and>
   column price_category (transform_crypto_data 0 (crypto_table [crypto_at (RNum (Fin 500)) RNull]))
     = Inr [Some ''medium'']"
proof -
  let ?res = "transform_crypto_data 0 (crypto_table [crypto_at (RNum (Fin 500)) RNull])"
  have "\<exists>r. ?res = Inr (Transformed [r]) \<and> price_usd r = Fin 500"
    by (simp add: crypto_eval crypto_tag_def crypto_tick.defs crypto_out.defs)
  then obtain r where h: "?res = Inr (Transformed [r])" and p: "price_usd r = Fin 500"
    by blast
  have m: "r \<in> set [r]" by simp
  from price_category_buckets [OF h m] p have "price_category r = Some ''medium''"
    by simp
  with h p show ?thesis
    by (simp add: column_def)
qed

section \<open>Portfolio metrics\<close>

lemma map2_same: "map (\<lambda>(x, y). F x y) (zip xs (map h xs)) = map (\<lambda>x. F x (h x)) xs"
  by (induction xs) simp_all

lemma portfolio_metrics_rows:
  assumes "portfolio_metrics now1 now2 df = Inr out" and "r \<in> set out"
  shows "cost_basis r = fl_mul (quantity r) (purchase_price r) \<and>
         holding_days r = map_option (\<lambda>d. timedelta_days (now1 - d)) (purchase_date r)"
proof -
  from assms(1) have "out = map (\<lambda>x. portfolio_holding.extend x
      (portfolio_out.fields (fl_mul (quantity x) (purchase_price x))
         (map_option timedelta_days ((map_option (\<lambda>t. now1 - t) \<circ> purchase_date) x)) now2)) df"
    by (auto simp: portfolio_metrics_def elapsed_def map2_same split: sum.splits if_splits)
  with assms(2) obtain x where "r = portfolio_holding.extend x
      (portfolio_out.fields (fl_mul (quantity x) (purchase_price x))
         (map_option timedelta_days ((map_option (\<lambda>t. now1 - t) \<circ> purchase_date) x)) now2)"
    by auto
  then show ?thesis
    by (cases "purchase_date x") (simp_all add: portfolio_holding.defs portfolio_out.defs)
qed

lemma portfolio_out_rows:
  assumes "transform_portfolio_data now1 now2 df = Inr (Transformed out)" and "r \<in> set out"
  shows "cost_basis r = fl_mul (quantity r) (purchase_price r) \<and>
         holding_days r = map_option (\<lambda>d. timedelta_days (now1 - d)) (purchase_date r)"
proof -
  from assms(1) obtain typed where "map_sum id Transformed (portfolio_metrics now1 now2 typed)
      = (Inr (Transformed out) :: error + (portfolio_raw, portfolio_out) outcome)"
    by (auto simp: transform_portfolio_data_def split: if_splits sum.splits option.splits)
  then have "portfolio_metrics now1 now2 typed = Inr out"
    by (cases "portfolio_metrics now1 now2 typed") simp_all
  from portfolio_metrics_rows [OF this assms(2)] show ?thesis .
qed

lemma timedelta_days_floor:
  "timedelta_days x * ns_per_day \<le> x \<and> x < (timedelta_days x + 1) * ns_per_day"
proof -
  define n where "n = ns_per_day"
  have pos: "0 < n" by (simp add: n_def ns_per_day_def)
  have e: "x div n * n + x mod n = x" by simp
  have lo: "0 \<le> x mod n" and hi: "x mod n < n"
    using pos by simp_all
  have "(x div n + 1) * n = x div n * n + n"
    by (simp add: distrib_right)
  with e lo hi have "x div n * n \<le> x \<and> x < (x div n + 1) * n"
    by linarith
  then show ?thesis
    by (simp add: timedelta_days_def n_def)
qed

lemma timedelta_days_trunc: "0 \<le> x \<Longrightarrow> timedelta_days x = truncated_days x"
  by (cases "x = 0") (simp_all add: timedelta_days_def truncated_days_def)

lemma timedelta_days_today: "0 \<le> x \<Longrightarrow> x < ns_per_day \<Longrightarrow> timedelta_days x = 0"
  by (simp add: timedelta_days_def)

lemma fl_mul_finite:
  "q \<noteq> 0 \<Longrightarrow> p \<noteq> 0 \<Longrightarrow> fl_mul (Fin q) (Fin p) = round64 (q * p)"
  by (simp add: fl_mul_def isna_def is_inf_def is_zero_def)

lemma round64_5000: "round64 5000 = Fin 5000"
  using round64_int [of 5000] by simp

lemmas portfolio_eval = transform_portfolio_data_def frame_empty_def portfolio_table_def
  missing_column_def in_bounds_def portfolio_convert_def portfolio_metrics_def elapsed_def
  fits_def holding_at_def portfolio_holding.defs portfolio_out.defs

text \<open>
  C8 (as stated): \<open>holding_days\<close> is the number of whole days between the purchase date
  and the processing instant, truncated. For a purchase date twelve hours after the
  processing instant the code yields -1, where truncation yields 0.
\<close>

theorem future_purchase_counts_minus_one:
  "column holding_days
     (transform_portfolio_data 0 0
        (portfolio_table [holding_at (RNum (Fin 2)) (RNum (Fin 2500)) (TVal 43200000000000)]))
     = Inr [Some (- 1)] \<and>
   truncated_days (0 - 43200000000000) = 0"
  by (simp add: column_def portfolio_eval timedelta_days_def truncated_days_def ns_per_day_def)

text \<open>
  C8 (amended): \<open>cost_basis\<close> is the float64 product of quantity and purchase price,
  that is the exact product rounded to the nearest float64 (2 times 2500.00 gives
  5000.00; a missing factor makes it missing); \<open>holding_days\<close> is the floor of the
  elapsed time in days, which is the truncated number of days whenever the purchase date
  is not after the processing instant, and 0 for a purchase less than a day before it; a
  missing purchase date gives a missing \<open>holding_days\<close>.
\<close>

theorem portfolio_metrics_floor:
  assumes "transform_portfolio_data now1 now2 df = Inr (Transformed out)" and "r \<in> set out"
  shows "cost_basis r = fl_mul (quantity r) (purchase_price r) \<and>
    (\<forall>q p. quantity r = Fin q \<and> purchase_price r = Fin p \<and> q \<noteq> 0 \<and> p \<noteq> 0 \<longrightarrow>
       cost_basis r = round64 (q * p)) \<and>
    (quantity r = Fin 2 \<and> purchase_price r = Fin 2500 \<longrightarrow> cost_basis r = Fin 5000) \<and>
    (quantity r = NaN \<or> purchase_price r = NaN \<longrightarrow> cost_basis r = NaN) \<and>
    (purchase_date r = None \<longrightarrow> holding_days r = None) \<and>
    (\<forall>d. purchase_date r = Some d \<longrightarrow>
       (\<exists>h. holding_days r = Some h \<and>
            h * ns_per_day \<le> now1 - d \<and> now1 - d < (h + 1) * ns_per_day \<and>
            (d \<le> now1 \<longrightarrow> h = truncated_days (now1 - d)) \<and>
            (d \<le> now1 \<and> now1 < d + ns_per_day \<longrightarrow> h = 0)))"
proof -
  note rows = portfolio_out_rows [OF assms]
  have a: "cost_basis r = fl_mul (quantity r) (purchase_price r)"
    using rows by simp
  have b: "\<forall>q p. quantity r = Fin q \<and> purchase_price r = Fin p \<and> q \<noteq> 0 \<and> p \<noteq> 0 \<longrightarrow>
       cost_basis r = round64 (q * p)"
    using a by (simp add: fl_mul_finite)
  have b': "quantity r = Fin 2 \<and> purchase_price r = Fin 2500 \<longrightarrow> cost_basis r = Fin 5000"
    using a by (simp add: fl_mul_finite round64_5000)
  have b'': "quantity r = NaN \<or> purchase_price r = NaN \<longrightarrow> cost_basis r = NaN"
    using a by (auto simp: fl_mul_def isna_def)
  have c: "purchase_date r = None \<longrightarrow> holding_days r = None"
    using rows by simp
  have d: "\<exists>h. holding_days r = Some h \<and>
            h * ns_per_day \<le> now1 - d \<and> now1 - d < (h + 1) * ns_per_day \<and>
            (d \<le> now1 \<longrightarrow> h = truncated_days (now1 - d)) \<and>
            (d \<le> now1 \<and> now1 < d + ns_per_day \<longrightarrow> h = 0)"
    if "purchase_date r = Some d" for d
  proof -
    have "holding_days r = Some (timedelta_days (now1 - d))"
      using rows that by simp
    moreover have "d \<le> now1 \<longrightarrow> timedelta_days (now1 - d) = truncated_days (now1 - d)"
      using timedelta_days_trunc [of "now1 - d"] by simp
    moreover have "d \<le> now1 \<and> now1 < d + ns_per_day \<longrightarrow> timedelta_days (now1 - d) = 0"
      using timedelta_days_today [of "now1 - d"] by simp
    ultimately show ?thesis
      using timedelta_days_floor [of "now1 - d"] by simp
  qed
  from a b b' b'' c d show ?thesis by blast
qed

theorem portfolio_metrics_floor_witness:
  "column cost_basis
     (transform_portfolio_data 3600000000000 3600000000001
        (portfolio_table [holding_at (RNum (Fin 2)) (RNum (Fin 2500)) (TVal 0)]))
     = Inr [Fin 5000] \<and>
   column holding_days
     (transform_portfolio_data 3600000000000 3600000000001
        (portfolio_table [holding_at (RNum (Fin 2)) (RNum (Fin 2500)) (TVal 0)]))
     = Inr [Some 0]"
proof -
  let ?res = "transform_portfolio_data 3600000000000 3600000000001
        (portfolio_table [holding_at (RNum (Fin 2)) (RNum (Fin 2500)) (TVal 0)])"
  have "\<exists>r. ?res = Inr (Transformed [r]) \<and> quantity r = Fin 2 \<and> purchase_price r = Fin 2500 \<and>
      purchase_date r = Some 0"
    by (simp add: portfolio_eval)
  then obtain r where h: "?res = Inr (Transformed [r])"
    and q: "quantity r = Fin 2" "purchase_price r = Fin 2500" "purchase_date r = Some 0"
    by blast
  have m: "r \<in> set [r]" by simp
  from portfolio_metrics_floor [OF h m] q
  have "cost_basis r = Fin 5000 \<and> holding_days r = Some 0"
    by (auto simp: ns_per_day_def)
  with h show ?thesis
    by (simp add: column_def)
qed

section \<open>Rows of the stock transform\<close>

lemma drop_dups_unseen: "\<forall>r \<in> set (drop_dups key seen xs). key r \<notin> set seen"
proof (induction xs arbitrary: seen)
  case Nil
  show ?case by simp
next
  case (Cons x xs)
  show ?case
  proof (cases "key x \<in> set seen")
    case True
    with Cons.IH [of seen] show ?thesis by simp
  next
    case False
    have "\<forall>r \<in> set (drop_dups key (key x # seen) xs). key r \<notin> set (key x # seen)"
      by (rule Cons.IH)
    with False show ?thesis by auto
  qed
qed

lemma drop_dups_distinct: "distinct (map key (drop_dups key seen xs))"
proof (induction xs arbitrary: seen)
  case Nil
  show ?case by simp
next
  case (Cons x xs)
  have "\<forall>r \<in> set (drop_dups key (key x # seen) xs). key r \<notin> set (key x # seen)"
    by (rule drop_dups_unseen)
  then have "key x \<notin> key ` set (drop_dups key (key x # seen) xs)"
    by auto
  with Cons show ?case by simp
qed

lemma drop_dups_find:
  "find (\<lambda>r. key r = k) (drop_dups key seen xs) =
     (if k \<in> set seen then None else find (\<lambda>r. key r = k) xs)"
  by (induction xs arbitrary: seen) auto

lemma drop_dups_subset: "set (drop_dups key seen xs) \<subseteq> set xs"
  by (induction xs arbitrary: seen) auto

lemma drop_duplicates_distinct: "distinct (map key (drop_duplicates key xs))"
  by (simp add: drop_duplicates_def drop_dups_distinct)

lemma drop_duplicates_find:
  "find (\<lambda>r. key r = k) (drop_duplicates key xs) = find (\<lambda>r. key r = k) xs"
  by (simp add: drop_duplicates_def drop_dups_find)

lemma drop_duplicates_subset: "set (drop_duplicates key xs) \<subseteq> set xs"
  by (simp add: drop_duplicates_def drop_dups_subset)

lemma find_map_comp: "find P (map f xs) = map_option f (find (\<lambda>x. P (f x)) xs)"
  by (induction xs) auto

lemma stock_tag_fields:
  "stock_bar.symbol (stock_tag now r) = stock_bar.symbol r"
  "date (stock_tag now r) = date r"
  "open (stock_tag now r) = open r"
  "high (stock_tag now r) = high r"
  "low (stock_tag now r) = low r"
  "close (stock_tag now r) = close r"
  "volume (stock_tag now r) = volume r"
  "daily_return (stock_tag now r) = daily_return r"
  "price_range (stock_tag now r) = price_range r"
  "price_change (stock_tag now r) = price_change r"
  "price_change_pct (stock_tag now r) = price_change_pct r"
  "ma_7 (stock_tag now r) = ma_7 r"
  "ma_30 (stock_tag now r) = ma_30 r"
  "volatility_30d (stock_tag now r) = volatility_30d r"
  by (simp_all add: stock_tag_def stock_bar.defs stock_row.defs stock_out.defs)

lemma stock_key_tag: "stock_key (stock_tag now r) = stock_key r"
  by (simp add: stock_key_def stock_tag_fields)

lemma news_classify_fields:
  "title (news_classify r) = map_option strip (title r)"
  "news_raw.symbol (news_classify r) = news_raw.symbol r"
  "url (news_classify r) = url r"
  "flags (news_classify r) =
     map (\<lambda>keyword. (''has_'' @ keyword, has_keyword keyword (map_option strip (title r))))
       news_keywords"
  by (simp_all add: news_classify_def Let_def news_raw.defs news_row.defs)

lemma news_tag_fields:
  "title (news_tag now r) = title r"
  "news_raw.symbol (news_tag now r) = news_raw.symbol r"
  "url (news_tag now r) = url r"
  "flags (news_tag now r) = flags r"
  by (simp_all add: news_tag_def news_raw.defs news_row.defs news_out.defs)

lemma news_key_tag: "news_key (news_tag now r) = news_key r"
  by (simp add: news_key_def news_tag_fields)

text \<open>What a returned stock frame is.\<close>

lemma stock_Transformed:
  assumes "transform_stock_data now df = Inr (Transformed out)"
  shows "out = map (stock_tag now)
           (drop_duplicates stock_key (stock_validate (stock_features (stock_normalized df))))"
proof -
  from assms obtain ds where d: "to_datetime (map stock_raw.date (rows df)) = Inr ds"
    and o: "out = map (stock_tag now) (stock_gate (stock_convert (rows df) ds))"
    by (auto simp: transform_stock_data_def split: if_splits sum.splits option.splits)
  from to_datetime_Inr [OF d] have "ds = map (instant \<circ> stock_raw.date) (rows df)"
    by simp
  with o show ?thesis
    by (simp add: stock_gate_def stock_normalized_def)
qed

lemma stock_returns:
  assumes "\<not> frame_empty df"
    and "{''date'', ''open'', ''high'', ''low'', ''close'', ''volume'', ''symbol''} \<subseteq> columns df"
    and "list_all readable (map stock_raw.date (rows df))"
  shows "\<exists>out. transform_stock_data now df = Inr (Transformed out)"
proof -
  from assms(2) have "missing_column [''open'', ''high'', ''low'', ''close'', ''volume'', ''symbol''] df
      = None"
    by (simp add: missing_column_None)
  with assms show ?thesis
    by (simp add: transform_stock_data_def to_datetime_readable)
qed

lemma news_Transformed:
  assumes "transform_news_data now df = Inr (Transformed out)"
  shows "out = map (news_tag now) (drop_duplicates news_key (map news_classify (rows df)))"
  using assms by (auto simp: transform_news_data_def split: if_splits)

lemma stock_features_length [simp]: "length (stock_features df) = length df"
  by (simp add: stock_features_def Let_def)

lemma stock_features_nth:
  assumes "i < length df"
  shows "stock_features df ! i =
     stock_bar.extend (df ! i)
       (stock_row.fields
          (groupby_transform (map stock_bar.symbol df) (map close df) pct_change ! i)
          (fl_sub (high (df ! i)) (low (df ! i)))
          (fl_sub (close (df ! i)) (open (df ! i)))
          (fl_mul (fl_div (fl_sub (close (df ! i)) (open (df ! i))) (open (df ! i))) (Fin 100))
          (add_moving_averages 7 (map stock_bar.symbol df) (map close df) ! i)
          (add_moving_averages 30 (map stock_bar.symbol df) (map close df) ! i)
          (add_volatility (map stock_bar.symbol df)
             (groupby_transform (map stock_bar.symbol df) (map close df) pct_change) ! i))"
  using assms by (simp add: stock_features_def Let_def)

lemma stock_features_fields:
  assumes "i < length df"
  shows "stock_bar.symbol (stock_features df ! i) = stock_bar.symbol (df ! i)"
    and "date (stock_features df ! i) = date (df ! i)"
    and "open (stock_features df ! i) = open (df ! i)"
    and "close (stock_features df ! i) = close (df ! i)"
    and "volume (stock_features df ! i) = volume (df ! i)"
    and "daily_return (stock_features df ! i)
           = groupby_transform (map stock_bar.symbol df) (map close df) pct_change ! i"
    and "price_change_pct (stock_features df ! i)
           = fl_mul (fl_div (fl_sub (close (df ! i)) (open (df ! i))) (open (df ! i))) (Fin 100)"
  by (simp_all add: stock_features_nth [OF assms] stock_bar.defs stock_row.defs)

lemma stock_features_derived:
  assumes "r \<in> set (stock_features df)"
  shows "price_range r = fl_sub (high r) (low r) \<and> price_change r = fl_sub (close r) (open r) \<and>
     price_change_pct r = fl_mul (fl_div (fl_sub (close r) (open r)) (open r)) (Fin 100)"
proof -
  from assms obtain i where i: "i < length df" and r: "r = stock_features df ! i"
    by (auto simp: in_set_conv_nth)
  show ?thesis
    unfolding r by (simp add: stock_features_nth [OF i] stock_bar.defs stock_row.defs)
qed

lemma stock_out_rows:
  assumes "transform_stock_data now df = Inr (Transformed out)" and "r \<in> set out"
  shows "\<exists>r'. r = stock_tag now r' \<and> r' \<in> set (stock_features (stock_normalized df)) \<and>
     fl_lt (Fin 0) (close r') \<and> fl_le (Fin 0) (volume r')"
proof -
  let ?v = "stock_validate (stock_features (stock_normalized df))"
  have "r \<in> stock_tag now ` set (drop_duplicates stock_key ?v)"
    using assms(2) unfolding stock_Transformed [OF assms(1)] by simp
  then obtain r' where r: "r = stock_tag now r'" and m: "r' \<in> set (drop_duplicates stock_key ?v)"
    by (rule imageE)
  have "set (drop_duplicates stock_key ?v) \<subseteq> set ?v"
    by (rule drop_duplicates_subset)
  with m have "r' \<in> set ?v"
    by (rule set_mp [rotated])
  then have "r' \<in> set (stock_features (stock_normalized df)) \<and>
     fl_lt (Fin 0) (close r') \<and> fl_le (Fin 0) (volume r')"
    by (simp add: stock_validate_def)
  with r show ?thesis
    by (intro exI [of _ r']) simp
qed

end
